theory Spec2Isabelle
  imports Main "HOL-Library.Word"
begin

section \<open>Data model\<close>

text \<open>
  A Go \<open>float64\<close> is kept as its 64-bit IEEE-754 pattern. The handler stores the
  value and never computes with it or compares it.
\<close>

type_synonym float64 = "64 word"

text \<open>
  The dynamic values an \<open>interface{}\<close> holds after \<open>encoding/json\<close> has decoded into a
  \<open>map[string]interface{}\<close>: nil, bool, float64, string, \<open>[]interface{}\<close> and
  \<open>map[string]interface{}\<close>. A Go map is an association list read with \<open>map_of\<close>.
\<close>

datatype jvalue =
    JNull
  | JBool bool
  | JNumber float64
  | JString string
  | JArray "jvalue list"
  | JObject "(string \<times> jvalue) list"

type_synonym jmap = "(string \<times> jvalue) list"

text \<open>\<open>m[k]\<close> on a \<open>map[string]interface{}\<close>: a missing key reads as the nil interface.\<close>

definition index_map :: "jmap \<Rightarrow> string \<Rightarrow> jvalue" where
  "index_map m k = (case map_of m k of None \<Rightarrow> JNull | Some v \<Rightarrow> v)"

text \<open>\<open>type CacheEntry struct\<close>\<close>

record CacheEntry =
  operationName :: string
  query :: string
  sha256Hash :: string
  version :: float64

text \<open>
  \<open>type RequestOptions struct\<close>. \<open>Variables\<close> and \<open>Extensions\<close> are maps, and a Go
  map may be nil: \<open>None\<close>.
\<close>

record RequestOptions =
  Query :: string
  Variables :: "jmap option"
  OperationName :: string
  Extensions :: "jmap option"
  Persisted :: bool
  HasPersistedParams :: bool

text \<open>
  The state the resolver works on: the objects that \<open>*RequestOptions\<close> pointers point
  to, by address, and the package variable \<open>cache\<close>. A pointer is \<open>None\<close> (nil) or
  \<open>Some\<close> address.
\<close>

type_synonym ptr = "nat option"

record world =
  heap :: "nat \<Rightarrow> RequestOptions"
  cache :: "string \<rightharpoonup> CacheEntry"

text \<open>\<open>cache[sha]\<close>: a missing key reads as the zero \<open>CacheEntry\<close>.\<close>

definition zero_CacheEntry :: CacheEntry where
  "zero_CacheEntry = \<lparr>operationName = [], query = [], sha256Hash = [], version = 0\<rparr>"

definition cache_index :: "(string \<rightharpoonup> CacheEntry) \<Rightarrow> string \<Rightarrow> CacheEntry" where
  "cache_index c k = (case c k of None \<Rightarrow> zero_CacheEntry | Some e \<Rightarrow> e)"

text \<open>
  A call either returns its pair (pointer, error), the error nil or carrying its
  message, or it panics at run time.
\<close>

datatype panic = NilPointerDereference | InterfaceConversion

datatype outcome = Return ptr "string option" | Panic panic

section \<open>The persisted-query resolver\<close>

text \<open>The text given to \<open>errors.New\<close> on a lookup miss.\<close>

definition PersistedQueryNotFound :: string where
  \<open>PersistedQueryNotFound =
     ''{"errors":[{"message":"PersistedQueryNotFound","extensions":{"code":"PERSISTED_QUERY_NOT_FOUND"}}]}''\<close>

text \<open>Field assignments through the pointer \<open>opts\<close>.\<close>

definition store :: "nat \<Rightarrow> (RequestOptions \<Rightarrow> RequestOptions) \<Rightarrow> world \<Rightarrow> world" where
  "store p f w = w\<lparr>heap := (heap w)(p := f (heap w p))\<rparr>"

text \<open>
  \<open>func persistedQueryCheck(opts *RequestOptions) (*RequestOptions, error)\<close>.
  The three single-value type assertions panic when the dynamic type differs; the
  composite literal of the registration branch is evaluated before the map is written,
  so a failing assertion on \<open>version\<close> leaves the cache as it was.
\<close>

definition persistedQueryCheck :: "ptr \<Rightarrow> world \<Rightarrow> outcome \<times> world" where
  "persistedQueryCheck opts w =
    (case opts of
       None \<Rightarrow> (Panic NilPointerDereference, w)
     | Some p \<Rightarrow>
       (case Extensions (heap w p) of
          None \<Rightarrow> (Return opts None, w)
        | Some ext \<Rightarrow>
          (case index_map ext ''persistedQuery'' of
             JNull \<Rightarrow> (Return opts None, w)
           | JObject values \<Rightarrow>
             (case index_map values ''sha256Hash'' of
                JString sha \<Rightarrow>
                  if sha = [] then (Return opts None, w)
                  else
                    let w1 = store p (\<lambda>r. r\<lparr>HasPersistedParams := True\<rparr>) w in
                    if Query (heap w1 p) = [] then
                      let cachedValue = cache_index (cache w1) sha in
                      if query cachedValue = [] then
                        (Return None (Some PersistedQueryNotFound), w1)
                      else
                        let w2 = store p (\<lambda>r. r\<lparr>OperationName := operationName cachedValue\<rparr>) w1;
                            w3 = store p (\<lambda>r. r\<lparr>Query := query cachedValue\<rparr>) w2;
                            w4 = store p (\<lambda>r. r\<lparr>Persisted := True\<rparr>) w3
                        in (Return opts None, w4)
                    else if Query (heap w1 p) \<noteq> [] then
                      (case index_map values ''version'' of
                         JNumber v \<Rightarrow>
                           (Return opts None,
                            w1\<lparr>cache := (cache w1)(sha \<mapsto>
                               \<lparr>operationName = OperationName (heap w1 p),
                                query = Query (heap w1 p),
                                sha256Hash = sha,
                                version = v\<rparr>)\<rparr>)
                       | _ \<Rightarrow> (Panic InterfaceConversion, w1))
                    else (Return opts None, w1)
              | _ \<Rightarrow> (Panic InterfaceConversion, w))
           | _ \<Rightarrow> (Panic InterfaceConversion, w))))"


section \<open>The HTTP handler\<close>

text \<open>
  What \<open>ContextHandler\<close> reads of the \<open>*http.Request\<close>: the method, the \<open>Accept\<close>
  header and whether the URL query has the key \<open>raw\<close>.
\<close>

record Request =
  Method :: string
  Accept :: string
  raw :: bool

text \<open>
  \<open>graphql.Params\<close> and \<open>graphql.Result\<close> of the execution engine. The schema, the
  context, a formatted error and a Go \<open>error\<close> inside one are opaque: \<open>'sch\<close>,
  \<open>'ctx\<close>, \<open>'fe\<close>, \<open>'err\<close>.
\<close>

record ('sch, 'ctx) Params =
  Schema_P :: 'sch
  RequestString :: string
  VariableValues :: "jmap option"
  OperationName_P :: string
  Context :: 'ctx
  RootObject :: "jmap option"

record 'fe Result =
  Data :: jvalue
  Errors :: "'fe list"

text \<open>
  \<open>type Handler struct\<close>. \<open>Schema\<close> is a pointer, \<open>None\<close> when nil; a function field
  is \<open>None\<close> when nil; of \<open>resultCallbackFn\<close> only being set matters here.
\<close>

record ('sch, 'ctx, 'fe, 'err) Handler =
  Schema :: "'sch option"
  pretty :: bool
  graphiql :: bool
  playground :: bool
  rootObjectFn :: "('ctx \<Rightarrow> Request \<Rightarrow> jmap option) option"
  resultCallbackFn :: bool
  formatErrorFn :: "('err \<Rightarrow> 'fe) option"

text \<open>The packages the handler calls: \<open>graphql\<close>, \<open>gqlerrors\<close> and \<open>encoding/json\<close>.\<close>

record ('sch, 'ctx, 'fe, 'err) env =
  graphql_Do :: "('sch, 'ctx) Params \<Rightarrow> 'fe Result"
  OriginalError :: "'fe \<Rightarrow> 'err"
  json_Marshal :: "'fe Result \<Rightarrow> string"
  json_MarshalIndent :: "'fe Result \<Rightarrow> string"

text \<open>
  What the handler does to the outside, in order: calls on the \<open>http.ResponseWriter\<close>,
  the execution dispatch \<open>graphql.Do\<close>, the two page renderers and the result callback.
\<close>

datatype ('sch, 'ctx, 'fe) event =
    SetHeader string string
  | AddHeader string string
  | WriteHeader nat
  | Write string
  | GraphqlDo "('sch, 'ctx) Params"
  | RenderGraphiQL "('sch, 'ctx) Params"
  | RenderPlayground
  | ResultCallback "('sch, 'ctx) Params" "'fe Result" string

fun is_dispatch :: "('sch, 'ctx, 'fe) event \<Rightarrow> bool" where
  "is_dispatch (GraphqlDo _) = True"
| "is_dispatch _ = False"

text \<open>\<open>strings.Contains(s, substr)\<close>\<close>

definition strings_Contains :: "string \<Rightarrow> string \<Rightarrow> bool" where
  "strings_Contains s substr =
     list_ex (\<lambda>i. take (length substr) (drop i s) = substr) [0..<Suc (length s)]"

text \<open>
  \<open>func (h *Handler) ContextHandler(ctx, w, r)\<close>, from the call of
  \<open>persistedQueryCheck\<close> on: \<open>p0\<close> is the pointer that \<open>NewRequestOptions(r)\<close> returned
  (each of its return statements takes the address of a \<open>RequestOptions\<close>, so it is not
  nil). The result is the panic, if any, the events so far and the state.
\<close>

definition ContextHandler ::
  "('sch, 'ctx, 'fe, 'err) env \<Rightarrow> ('sch, 'ctx, 'fe, 'err) Handler \<Rightarrow> 'ctx \<Rightarrow> Request \<Rightarrow>
   nat \<Rightarrow> world \<Rightarrow> panic option \<times> ('sch, 'ctx, 'fe) event list \<times> world" where
  "ContextHandler e h ctx r p0 w0 =
    (case persistedQueryCheck (Some p0) w0 of
       (Panic x, w) \<Rightarrow> (Some x, [], w)
     | (Return opts (Some err), w) \<Rightarrow>
         (None, [SetHeader ''Content-Type'' ''application/json'', Write err], w)
     | (Return opts None, w) \<Rightarrow>
         if Method r = ''OPTIONS'' then (None, [WriteHeader 204], w)
         else
           (case Schema h of
              None \<Rightarrow> (Some NilPointerDereference, [], w)
            | Some schema \<Rightarrow>
              (case opts of
                 None \<Rightarrow> (Some NilPointerDereference, [], w)
               | Some p \<Rightarrow>
                 let params0 =
                       \<lparr>Schema_P = schema,
                        RequestString = Query (heap w p),
                        VariableValues = Variables (heap w p),
                        OperationName_P = OperationName (heap w p),
                        Context = ctx,
                        RootObject = None\<rparr>;
                     params =
                       (case rootObjectFn h of
                          None \<Rightarrow> params0
                        | Some f \<Rightarrow> params0\<lparr>RootObject := f ctx r\<rparr>);
                     result0 = graphql_Do e params;
                     result =
                       (case formatErrorFn h of
                          None \<Rightarrow> result0
                        | Some f \<Rightarrow>
                            if length (Errors result0) > 0
                            then result0\<lparr>Errors := map (\<lambda>x. f (OriginalError e x)) (Errors result0)\<rparr>
                            else result0);
                     html = (\<not> raw r \<and> \<not> strings_Contains (Accept r) ''application/json''
                             \<and> strings_Contains (Accept r) ''text/html'')
                 in
                   if graphiql h \<and> html then
                     (None, [GraphqlDo params, RenderGraphiQL params], w)
                   else if playground h \<and> html then
                     (None, [GraphqlDo params, RenderPlayground], w)
                   else
                     let buff = (if pretty h then json_MarshalIndent e result
                                 else json_Marshal e result)
                     in (None,
                         [GraphqlDo params,
                          AddHeader ''Content-Type'' ''application/json; charset=utf-8'',
                          WriteHeader 200,
                          Write buff]
                         @ (if resultCallbackFn h then [ResultCallback params result buff] else []),
                         w))))"

section \<open>Example requests\<close>

text \<open>
  \<open>&RequestOptions{Query: q, Extensions: ext}\<close>: the other fields have their zero
  values. \<open>persistedQuery_ext d\<close> is the decoded \<open>{"persistedQuery": d}\<close>, and
  \<open>float64_1\<close> the \<open>float64\<close> that the JSON number \<open>1\<close> decodes to.
\<close>

definition request :: "string \<Rightarrow> jmap option \<Rightarrow> RequestOptions" where
  "request q ext =
     \<lparr>Query = q, Variables = None, OperationName = [], Extensions = ext,
      Persisted = False, HasPersistedParams = False\<rparr>"

definition persistedQuery_ext :: "jmap \<Rightarrow> jmap option" where
  "persistedQuery_ext d = Some [(''persistedQuery'', JObject d)]"

definition float64_1 :: float64 where
  "float64_1 = 0x3FF0000000000000"

text \<open>
  The state at process start, \<open>cache = make(map[string]CacheEntry)\<close>, with the
  requests \<open>rs\<close> allocated at the addresses \<open>0, 1, ...\<close>.
\<close>

definition start_world :: "RequestOptions list \<Rightarrow> world" where
  "start_world rs =
     \<lparr>heap = (\<lambda>a. if a < length rs then rs ! a else request [] None),
      cache = Map.empty\<rparr>"

text \<open>
  The requests of the two phases with a well-formed descriptor, version \<open>1\<close>:
  \<open>{"query": q, "extensions": {"persistedQuery": {"sha256Hash": h, "version": 1}}}\<close>
  and the same without \<open>query\<close>. An unversioned registration has no \<open>version\<close> in its
  descriptor.
\<close>

definition descriptor :: "string \<Rightarrow> jmap" where
  "descriptor h = [(''sha256Hash'', JString h), (''version'', JNumber float64_1)]"

definition registration_request :: "string \<Rightarrow> string \<Rightarrow> RequestOptions" where
  "registration_request h q = request q (persistedQuery_ext (descriptor h))"

definition lookup_request :: "string \<Rightarrow> RequestOptions" where
  "lookup_request h = request [] (persistedQuery_ext (descriptor h))"

definition unversioned_registration :: "string \<Rightarrow> string \<Rightarrow> RequestOptions" where
  "unversioned_registration h q = request q (persistedQuery_ext [(''sha256Hash'', JString h)])"

text \<open>A lookup whose descriptor has a string where the version number belongs.\<close>

definition misversioned_lookup :: "string \<Rightarrow> RequestOptions" where
  "misversioned_lookup h =
     request [] (persistedQuery_ext [(''sha256Hash'', JString h), (''version'', JString ''1'')])"

text \<open>
  A handler as \<open>New\<close> builds it from \<open>NewConfig()\<close> with a schema set, a \<open>POST\<close> request
  that accepts JSON, and an execution engine that answers every query with no data and
  no errors. The opaque types are \<open>unit\<close>.
\<close>

definition default_handler :: "(unit, unit, unit, unit) Handler" where
  "default_handler =
     \<lparr>Schema = Some (), pretty = True, graphiql = True, playground = False,
      rootObjectFn = None, resultCallbackFn = False, formatErrorFn = None\<rparr>"

definition post_request :: Request where
  "post_request = \<lparr>Method = ''POST'', Accept = ''application/json'', raw = False\<rparr>"

definition idle_env :: "(unit, unit, unit, unit) env" where
  "idle_env =
     \<lparr>graphql_Do = (\<lambda>_. \<lparr>Data = JNull, Errors = []\<rparr>),
      OriginalError = (\<lambda>_. ()),
      json_Marshal = (\<lambda>_. []),
      json_MarshalIndent = (\<lambda>_. [])\<rparr>"

text \<open>
  \<open>Persisted\<close> and \<open>HasPersistedParams\<close> are exported fields without a tag, so
  \<open>json.Unmarshal(body, &opts)\<close> fills them from a body that names them:
  \<open>{"query": q, "Persisted": true, "HasPersistedParams": true}\<close> decodes to this request.
\<close>

definition preset_request :: "string \<Rightarrow> jmap option \<Rightarrow> RequestOptions" where
  "preset_request q ext = (request q ext)\<lparr>Persisted := True, HasPersistedParams := True\<rparr>"

section \<open>The paths of the resolver\<close>

lemma heap_store [simp]: "heap (store p f w) = (heap w)(p := f (heap w p))"
  by (simp add: store_def)

lemma cache_store [simp]: "cache (store p f w) = cache w"
  by (simp add: store_def)

lemma pqc_no_extensions:
  "Extensions (heap w p) = None \<Longrightarrow>
   persistedQueryCheck (Some p) w = (Return (Some p) None, w)"
  by (simp add: persistedQueryCheck_def)

lemma pqc_no_descriptor:
  "Extensions (heap w p) = Some ext \<Longrightarrow> index_map ext ''persistedQuery'' = JNull \<Longrightarrow>
   persistedQueryCheck (Some p) w = (Return (Some p) None, w)"
  by (simp add: persistedQueryCheck_def)

lemma pqc_empty_hash:
  "Extensions (heap w p) = Some ext \<Longrightarrow> index_map ext ''persistedQuery'' = JObject vals \<Longrightarrow>
   index_map vals ''sha256Hash'' = JString [] \<Longrightarrow>
   persistedQueryCheck (Some p) w = (Return (Some p) None, w)"
  by (simp add: persistedQueryCheck_def)

lemma pqc_not_object:
  "Extensions (heap w p) = Some ext \<Longrightarrow> index_map ext ''persistedQuery'' \<noteq> JNull \<Longrightarrow>
   \<forall>vals. index_map ext ''persistedQuery'' \<noteq> JObject vals \<Longrightarrow>
   persistedQueryCheck (Some p) w = (Panic InterfaceConversion, w)"
  by (simp add: persistedQueryCheck_def split: jvalue.splits)

lemma pqc_hash_not_string:
  "Extensions (heap w p) = Some ext \<Longrightarrow> index_map ext ''persistedQuery'' = JObject vals \<Longrightarrow>
   \<forall>s. index_map vals ''sha256Hash'' \<noteq> JString s \<Longrightarrow>
   persistedQueryCheck (Some p) w = (Panic InterfaceConversion, w)"
  by (simp add: persistedQueryCheck_def split: jvalue.splits)

lemma pqc_lookup:
  assumes "Extensions (heap w p) = Some ext"
    and "index_map ext ''persistedQuery'' = JObject vals"
    and "index_map vals ''sha256Hash'' = JString h"
    and "h \<noteq> []"
    and "Query (heap w p) = []"
  shows "persistedQueryCheck (Some p) w =
    (if query (cache_index (cache w) h) = []
     then (Return None (Some PersistedQueryNotFound),
           store p (\<lambda>r. r\<lparr>HasPersistedParams := True\<rparr>) w)
     else (Return (Some p) None,
           store p (\<lambda>r. r\<lparr>HasPersistedParams := True,
                          OperationName := operationName (cache_index (cache w) h),
                          Query := query (cache_index (cache w) h),
                          Persisted := True\<rparr>) w))"
  using assms by (simp add: persistedQueryCheck_def Let_def store_def)

lemma pqc_register:
  assumes "Extensions (heap w p) = Some ext"
    and "index_map ext ''persistedQuery'' = JObject vals"
    and "index_map vals ''sha256Hash'' = JString h"
    and "h \<noteq> []"
    and "Query (heap w p) \<noteq> []"
    and "index_map vals ''version'' = JNumber v"
  shows "persistedQueryCheck (Some p) w =
    (Return (Some p) None,
     (store p (\<lambda>r. r\<lparr>HasPersistedParams := True\<rparr>) w)
       \<lparr>cache := (cache w)(h \<mapsto> \<lparr>operationName = OperationName (heap w p),
                                 query = Query (heap w p), sha256Hash = h, version = v\<rparr>)\<rparr>)"
  using assms by (simp add: persistedQueryCheck_def Let_def store_def)


lemma pqc_cache_cases:
  "cache (snd (persistedQueryCheck opts w)) = cache w
   \<or> (\<exists>h entry. cache (snd (persistedQueryCheck opts w)) = (cache w)(h \<mapsto> entry))"
  by (simp add: persistedQueryCheck_def Let_def split: option.splits jvalue.splits) blast

lemma pqc_error_only_on_miss:
  assumes "fst (persistedQueryCheck (Some p) w) = Return ret (Some err)"
  shows "ret = None \<and> err = PersistedQueryNotFound \<and>
         snd (persistedQueryCheck (Some p) w) = store p (\<lambda>r. r\<lparr>HasPersistedParams := True\<rparr>) w"
  using assms
  by (auto simp add: persistedQueryCheck_def Let_def split: option.splits jvalue.splits if_splits)

section \<open>Registration and lookup\<close>

text \<open>
  Claim C1, as the code has it. Let \<open>h\<close> be a non-empty hash and \<open>q\<close> a non-empty query
  text. A registration request carries \<open>q\<close> and a \<open>persistedQuery\<close> descriptor with
  \<open>sha256Hash = h\<close> and a numeric \<open>version\<close>; a lookup request has an empty query and a
  descriptor with the same hash. Calling \<open>persistedQueryCheck\<close> on the first and then on
  the second returns both requests without error, and the second now has the query \<open>q\<close>
  and \<open>Persisted = true\<close>.
\<close>

theorem register_then_lookup:
  assumes "h \<noteq> []" and "q \<noteq> []"
    and "Query (heap w p1) = q"
    and "Extensions (heap w p1) = Some ext1"
    and "index_map ext1 ''persistedQuery'' = JObject vals1"
    and "index_map vals1 ''sha256Hash'' = JString h"
    and "index_map vals1 ''version'' = JNumber v"
    and "persistedQueryCheck (Some p1) w = (out1, w1)"
    and "Query (heap w1 p2) = []"
    and "Extensions (heap w1 p2) = Some ext2"
    and "index_map ext2 ''persistedQuery'' = JObject vals2"
    and "index_map vals2 ''sha256Hash'' = JString h"
    and "persistedQueryCheck (Some p2) w1 = (out2, w2)"
  shows "out1 = Return (Some p1) None \<and> out2 = Return (Some p2) None \<and>
         Query (heap w2 p2) = q \<and> Persisted (heap w2 p2)"
proof -
  from assms(1-8) have reg: "out1 = Return (Some p1) None"
    and c1: "cache w1 h = Some \<lparr>operationName = OperationName (heap w p1), query = q,
                                sha256Hash = h, version = v\<rparr>"
    by (auto simp add: pqc_register)
  from c1 \<open>q \<noteq> []\<close> have hit: "query (cache_index (cache w1) h) = q"
    by (simp add: cache_index_def)
  from assms(9-13) hit \<open>h \<noteq> []\<close> \<open>q \<noteq> []\<close>
  have "out2 = Return (Some p2) None \<and> Query (heap w2 p2) = q \<and> Persisted (heap w2 p2)"
    by (auto simp add: pqc_lookup)
  with reg show ?thesis by simp
qed

lemmas example_defs =
  start_world_def registration_request_def lookup_request_def unversioned_registration_def
  misversioned_lookup_def preset_request_def
  request_def persistedQuery_ext_def descriptor_def index_map_def

lemmas resolver_defs =
  persistedQueryCheck_def store_def cache_index_def zero_CacheEntry_def Let_def

theorem register_then_lookup_witness:
  "fst (persistedQueryCheck (Some 0)
          (start_world [registration_request ''abc123'' ''{ hello }'', lookup_request ''abc123'']))
     = Return (Some 0) None \<and>
   fst (persistedQueryCheck (Some 1)
          (snd (persistedQueryCheck (Some 0)
             (start_world [registration_request ''abc123'' ''{ hello }'', lookup_request ''abc123'']))))
     = Return (Some 1) None \<and>
   Query (heap (snd (persistedQueryCheck (Some 1)
          (snd (persistedQueryCheck (Some 0)
             (start_world [registration_request ''abc123'' ''{ hello }'', lookup_request ''abc123''])))))
        1)
     = ''{ hello }'' \<and>
   Persisted (heap (snd (persistedQueryCheck (Some 1)
          (snd (persistedQueryCheck (Some 0)
             (start_world [registration_request ''abc123'' ''{ hello }'', lookup_request ''abc123''])))))
        1)"
proof -
  let ?w = "start_world [registration_request ''abc123'' ''{ hello }'', lookup_request ''abc123'']"
  let ?ext = "[(''persistedQuery'', JObject (descriptor ''abc123''))]"
  let ?w1 = "snd (persistedQueryCheck (Some 0) ?w)"
  have pq: "index_map ?ext ''persistedQuery'' = JObject (descriptor ''abc123'')"
    and sha: "index_map (descriptor ''abc123'') ''sha256Hash'' = JString ''abc123''"
    and ver: "index_map (descriptor ''abc123'') ''version'' = JNumber float64_1"
    by (simp_all add: index_map_def descriptor_def)
  have q0: "Query (heap ?w 0) = ''{ hello }''" and e0: "Extensions (heap ?w 0) = Some ?ext"
    by (simp_all add: start_world_def registration_request_def request_def persistedQuery_ext_def)
  have hne: "''abc123'' \<noteq> []" and qne: "Query (heap ?w 0) \<noteq> []"
    by (simp_all add: q0)
  have w1: "heap ?w1 1 = lookup_request ''abc123''"
    unfolding pqc_register [OF e0 pq sha hne qne ver] by (simp add: start_world_def)
  have q1: "Query (heap ?w1 1) = []" and e1: "Extensions (heap ?w1 1) = Some ?ext"
    unfolding w1 by (simp_all add: lookup_request_def request_def persistedQuery_ext_def)
  show ?thesis
    using register_then_lookup [OF hne _ q0 e0 pq sha ver surjective_pairing q1 e1 pq sha
        surjective_pairing]
    by simp
qed

text \<open>
  Claim C1 as stated, for every hash and with nothing said of \<open>version\<close>, fails twice.
  With the empty string as hash both calls pass the request through: the lookup comes
  back with an empty query and \<open>Persisted = false\<close>. With the hash \<open>abc123\<close> and no
  \<open>version\<close> in the descriptor the registration panics, nothing is stored and the
  lookup ends in the not-found error.
\<close>

theorem register_then_lookup_counterexample:
  "Query (heap (snd (persistedQueryCheck (Some 1)
      (snd (persistedQueryCheck (Some 0)
         (start_world [registration_request [] ''{ hello }'', lookup_request []]))))) 1) = [] \<and>
   \<not> Persisted (heap (snd (persistedQueryCheck (Some 1)
      (snd (persistedQueryCheck (Some 0)
         (start_world [registration_request [] ''{ hello }'', lookup_request []]))))) 1) \<and>
   fst (persistedQueryCheck (Some 0)
      (start_world [unversioned_registration ''abc123'' ''{ hello }'', lookup_request ''abc123'']))
     = Panic InterfaceConversion \<and>
   fst (persistedQueryCheck (Some 1)
      (snd (persistedQueryCheck (Some 0)
         (start_world [unversioned_registration ''abc123'' ''{ hello }'', lookup_request ''abc123'']))))
     = Return None (Some PersistedQueryNotFound)"
  by (simp add: example_defs resolver_defs)

text \<open>
  Claim C5, as the code has it. Let \<open>h\<close> be a non-empty hash and \<open>q1\<close>, \<open>q2\<close> non-empty
  query texts. Registering \<open>(h, q1)\<close> and then \<open>(h, q2)\<close>, each with a numeric \<open>version\<close>
  in its descriptor, returns both requests without error, and a lookup of \<open>h\<close> with an
  empty query afterwards returns the request with the query \<open>q2\<close> and \<open>Persisted = true\<close>:
  the entry of \<open>q1\<close> has been overwritten.
\<close>

theorem last_write_wins:
  assumes "h \<noteq> []" and "q1 \<noteq> []" and "q2 \<noteq> []"
    and "Query (heap w p1) = q1"
    and "Extensions (heap w p1) = Some ext1"
    and "index_map ext1 ''persistedQuery'' = JObject vals1"
    and "index_map vals1 ''sha256Hash'' = JString h"
    and "index_map vals1 ''version'' = JNumber v1"
    and "persistedQueryCheck (Some p1) w = (out1, w1)"
    and "Query (heap w1 p2) = q2"
    and "Extensions (heap w1 p2) = Some ext2"
    and "index_map ext2 ''persistedQuery'' = JObject vals2"
    and "index_map vals2 ''sha256Hash'' = JString h"
    and "index_map vals2 ''version'' = JNumber v2"
    and "persistedQueryCheck (Some p2) w1 = (out2, w2)"
    and "Query (heap w2 p3) = []"
    and "Extensions (heap w2 p3) = Some ext3"
    and "index_map ext3 ''persistedQuery'' = JObject vals3"
    and "index_map vals3 ''sha256Hash'' = JString h"
    and "persistedQueryCheck (Some p3) w2 = (out3, w3)"
  shows "out1 = Return (Some p1) None \<and> out2 = Return (Some p2) None \<and>
         out3 = Return (Some p3) None \<and> Query (heap w3 p3) = q2 \<and> Persisted (heap w3 p3)"
proof -
  from assms(1,2,4-9) have first: "out1 = Return (Some p1) None"
    by (auto simp add: pqc_register)
  from assms(1,3,10-15) have second: "out2 = Return (Some p2) None"
    and c2: "cache w2 h = Some \<lparr>operationName = OperationName (heap w1 p2), query = q2,
                                sha256Hash = h, version = v2\<rparr>"
    by (auto simp add: pqc_register)
  from c2 have hit: "query (cache_index (cache w2) h) = q2"
    by (simp add: cache_index_def)
  from assms(16-20) hit \<open>h \<noteq> []\<close> \<open>q2 \<noteq> []\<close>
  have "out3 = Return (Some p3) None \<and> Query (heap w3 p3) = q2 \<and> Persisted (heap w3 p3)"
    by (auto simp add: pqc_lookup)
  with first second show ?thesis by simp
qed

theorem last_write_wins_witness:
  "fst (persistedQueryCheck (Some 0)
     (start_world [registration_request ''abc123'' ''{ hello }'',
                   registration_request ''abc123'' ''{ bye }'', lookup_request ''abc123'']))
     = Return (Some 0) None \<and>
   fst (persistedQueryCheck (Some 1) (snd (persistedQueryCheck (Some 0)
     (start_world [registration_request ''abc123'' ''{ hello }'',
                   registration_request ''abc123'' ''{ bye }'', lookup_request ''abc123'']))))
     = Return (Some 1) None \<and>
   fst (persistedQueryCheck (Some 2) (snd (persistedQueryCheck (Some 1)
     (snd (persistedQueryCheck (Some 0)
     (start_world [registration_request ''abc123'' ''{ hello }'',
                   registration_request ''abc123'' ''{ bye }'', lookup_request ''abc123'']))))))
     = Return (Some 2) None \<and>
   Query (heap (snd (persistedQueryCheck (Some 2) (snd (persistedQueryCheck (Some 1)
     (snd (persistedQueryCheck (Some 0)
     (start_world [registration_request ''abc123'' ''{ hello }'',
                   registration_request ''abc123'' ''{ bye }'', lookup_request ''abc123''])))))))
     2) = ''{ bye }'' \<and>
   Persisted (heap (snd (persistedQueryCheck (Some 2) (snd (persistedQueryCheck (Some 1)
     (snd (persistedQueryCheck (Some 0)
     (start_world [registration_request ''abc123'' ''{ hello }'',
                   registration_request ''abc123'' ''{ bye }'', lookup_request ''abc123''])))))))
     2)"
proof -
  let ?w = "start_world [registration_request ''abc123'' ''{ hello }'',
                         registration_request ''abc123'' ''{ bye }'', lookup_request ''abc123'']"
  let ?ext = "[(''persistedQuery'', JObject (descriptor ''abc123''))]"
  let ?w1 = "snd (persistedQueryCheck (Some 0) ?w)"
  let ?w2 = "snd (persistedQueryCheck (Some 1) ?w1)"
  have pq: "index_map ?ext ''persistedQuery'' = JObject (descriptor ''abc123'')"
    and sha: "index_map (descriptor ''abc123'') ''sha256Hash'' = JString ''abc123''"
    and ver: "index_map (descriptor ''abc123'') ''version'' = JNumber float64_1"
    by (simp_all add: index_map_def descriptor_def)
  have q0: "Query (heap ?w 0) = ''{ hello }''" and e0: "Extensions (heap ?w 0) = Some ?ext"
    by (simp_all add: start_world_def registration_request_def request_def persistedQuery_ext_def)
  have hne: "''abc123'' \<noteq> []" and qne0: "Query (heap ?w 0) \<noteq> []"
    by (simp_all add: q0)
  note r0 = pqc_register [OF e0 pq sha hne qne0 ver]
  have q1: "Query (heap ?w1 1) = ''{ bye }''" and e1: "Extensions (heap ?w1 1) = Some ?ext"
    unfolding r0
    by (simp_all add: start_world_def registration_request_def request_def persistedQuery_ext_def)
  have qne1: "Query (heap ?w1 1) \<noteq> []"
    unfolding q1 by simp
  note r1 = pqc_register [OF e1 pq sha hne qne1 ver]
  have q2: "Query (heap ?w2 2) = []" and e2: "Extensions (heap ?w2 2) = Some ?ext"
    unfolding r1 unfolding r0
    by (simp_all add: start_world_def lookup_request_def request_def persistedQuery_ext_def)
  show ?thesis
    using last_write_wins [OF hne _ _ q0 e0 pq sha ver surjective_pairing
        q1 e1 pq sha ver surjective_pairing q2 e2 pq sha surjective_pairing]
    by simp
qed

text \<open>
  Claim C5 as stated, for every hash and with nothing said of \<open>version\<close>, fails twice.
  With the empty string as hash the three calls pass their requests through and the
  lookup comes back with an empty query. With the hash \<open>abc123\<close> and no \<open>version\<close> in
  the descriptors both registrations panic and the lookup ends in the not-found error.
\<close>

theorem last_write_wins_counterexample:
  "Query (heap (snd (persistedQueryCheck (Some 2) (snd (persistedQueryCheck (Some 1)
     (snd (persistedQueryCheck (Some 0)
     (start_world [registration_request [] ''{ hello }'',
                   registration_request [] ''{ bye }'', lookup_request []])))))))
     2) = [] \<and>
   fst (persistedQueryCheck (Some 0)
     (start_world [unversioned_registration ''abc123'' ''{ hello }'',
                   unversioned_registration ''abc123'' ''{ bye }'', lookup_request ''abc123'']))
     = Panic InterfaceConversion \<and>
   fst (persistedQueryCheck (Some 1) (snd (persistedQueryCheck (Some 0)
     (start_world [unversioned_registration ''abc123'' ''{ hello }'',
                   unversioned_registration ''abc123'' ''{ bye }'', lookup_request ''abc123'']))))
     = Panic InterfaceConversion \<and>
   fst (persistedQueryCheck (Some 2) (snd (persistedQueryCheck (Some 1)
     (snd (persistedQueryCheck (Some 0)
     (start_world [unversioned_registration ''abc123'' ''{ hello }'',
                   unversioned_registration ''abc123'' ''{ bye }'', lookup_request ''abc123'']))))))
     = Return None (Some PersistedQueryNotFound)"
  by (simp add: example_defs resolver_defs)

section \<open>Requests that are left alone\<close>

text \<open>
  Claim C3, as the code has it. When the extensions are absent (a nil map), or hold no
  \<open>persistedQuery\<close> descriptor (the key is missing or null), or the descriptor's
  \<open>sha256Hash\<close> is the empty string, \<open>persistedQueryCheck\<close> returns the pointer it was
  given and no error, and the whole state is as before: the request is unchanged and the
  cache is not modified. \<open>HasPersistedParams\<close> and \<open>Persisted\<close> are therefore what they
  were when the request came in; the call neither sets nor clears them.
\<close>

theorem pass_through:
  assumes "Extensions (heap w p) = None
     \<or> (\<exists>ext. Extensions (heap w p) = Some ext \<and> index_map ext ''persistedQuery'' = JNull)
     \<or> (\<exists>ext vals. Extensions (heap w p) = Some ext
           \<and> index_map ext ''persistedQuery'' = JObject vals
           \<and> index_map vals ''sha256Hash'' = JString [])"
  shows "persistedQueryCheck (Some p) w = (Return (Some p) None, w)
     \<and> HasPersistedParams (heap (snd (persistedQueryCheck (Some p) w)) p)
         = HasPersistedParams (heap w p)
     \<and> Persisted (heap (snd (persistedQueryCheck (Some p) w)) p) = Persisted (heap w p)"
proof -
  from assms have "persistedQueryCheck (Some p) w = (Return (Some p) None, w)"
    by (elim disjE exE conjE) (simp_all add: pqc_no_extensions pqc_no_descriptor pqc_empty_hash)
  then show ?thesis by simp
qed

theorem pass_through_witness:
  "persistedQueryCheck (Some 0) (start_world [request ''{ hello }'' None])
     = (Return (Some 0) None, start_world [request ''{ hello }'' None]) \<and>
   \<not> HasPersistedParams (heap (snd (persistedQueryCheck (Some 0)
       (start_world [request ''{ hello }'' None]))) 0) \<and>
   \<not> Persisted (heap (snd (persistedQueryCheck (Some 0)
       (start_world [request ''{ hello }'' None]))) 0) \<and>
   persistedQueryCheck (Some 0) (start_world [request ''{ hello }'' (Some [])])
     = (Return (Some 0) None, start_world [request ''{ hello }'' (Some [])]) \<and>
   \<not> HasPersistedParams (heap (snd (persistedQueryCheck (Some 0)
       (start_world [request ''{ hello }'' (Some [])]))) 0) \<and>
   \<not> Persisted (heap (snd (persistedQueryCheck (Some 0)
       (start_world [request ''{ hello }'' (Some [])]))) 0) \<and>
   persistedQueryCheck (Some 0) (start_world [lookup_request []])
     = (Return (Some 0) None, start_world [lookup_request []]) \<and>
   \<not> HasPersistedParams (heap (snd (persistedQueryCheck (Some 0)
       (start_world [lookup_request []]))) 0) \<and>
   \<not> Persisted (heap (snd (persistedQueryCheck (Some 0)
       (start_world [lookup_request []]))) 0)"
proof -
  let ?a = "start_world [request ''{ hello }'' None]"
  let ?b = "start_world [request ''{ hello }'' (Some [])]"
  let ?c = "start_world [lookup_request []]"
  have a: "Extensions (heap ?a 0) = None"
    by (simp add: example_defs)
  have b: "\<exists>ext. Extensions (heap ?b 0) = Some ext \<and> index_map ext ''persistedQuery'' = JNull"
    by (simp add: example_defs)
  have c: "\<exists>ext vals. Extensions (heap ?c 0) = Some ext
             \<and> index_map ext ''persistedQuery'' = JObject vals
             \<and> index_map vals ''sha256Hash'' = JString []"
    by (simp add: example_defs)
  have fa: "\<not> HasPersistedParams (heap ?a 0)" "\<not> Persisted (heap ?a 0)"
    and fb: "\<not> HasPersistedParams (heap ?b 0)" "\<not> Persisted (heap ?b 0)"
    and fc: "\<not> HasPersistedParams (heap ?c 0)" "\<not> Persisted (heap ?c 0)"
    by (simp_all add: example_defs)
  from pass_through [of ?a 0] a fa
  have 1: "persistedQueryCheck (Some 0) ?a = (Return (Some 0) None, ?a) \<and>
      \<not> HasPersistedParams (heap (snd (persistedQueryCheck (Some 0) ?a)) 0) \<and>
      \<not> Persisted (heap (snd (persistedQueryCheck (Some 0) ?a)) 0)"
    by blast
  from pass_through [of ?b 0] b fb
  have 2: "persistedQueryCheck (Some 0) ?b = (Return (Some 0) None, ?b) \<and>
      \<not> HasPersistedParams (heap (snd (persistedQueryCheck (Some 0) ?b)) 0) \<and>
      \<not> Persisted (heap (snd (persistedQueryCheck (Some 0) ?b)) 0)"
    by blast
  from pass_through [of ?c 0] c fc
  have 3: "persistedQueryCheck (Some 0) ?c = (Return (Some 0) None, ?c) \<and>
      \<not> HasPersistedParams (heap (snd (persistedQueryCheck (Some 0) ?c)) 0) \<and>
      \<not> Persisted (heap (snd (persistedQueryCheck (Some 0) ?c)) 0)"
    by blast
  from 1 2 3 show ?thesis by blast
qed

text \<open>
  Claim C3 as stated, with \<open>HasPersistedParams = false\<close> and \<open>Persisted = false\<close> in the
  request that is returned, fails for a request that comes in with the flags set: with
  absent extensions the call returns it without error and both flags are still true.
\<close>

theorem pass_through_counterexample:
  "fst (persistedQueryCheck (Some 0) (start_world [preset_request ''{ hello }'' None]))
     = Return (Some 0) None \<and>
   HasPersistedParams (heap (snd (persistedQueryCheck (Some 0)
       (start_world [preset_request ''{ hello }'' None]))) 0) \<and>
   Persisted (heap (snd (persistedQueryCheck (Some 0)
       (start_world [preset_request ''{ hello }'' None]))) 0)"
  by (simp add: example_defs resolver_defs)

text \<open>
  Claim C7. For a request with a non-empty query and a descriptor with a non-empty
  \<open>sha256Hash\<close> and a numeric \<open>version\<close>, \<open>persistedQueryCheck\<close> returns the pointer it was
  given and no error. The request differs from what it was in \<open>HasPersistedParams\<close>
  alone, which is now true: \<open>Query\<close>, \<open>OperationName\<close>, \<open>Variables\<close> and \<open>Extensions\<close>
  are unchanged and \<open>Persisted\<close> is what it was, so still false. No other request is
  touched.
\<close>

theorem registration_frame:
  assumes "Query (heap w p) \<noteq> []"
    and "Extensions (heap w p) = Some ext"
    and "index_map ext ''persistedQuery'' = JObject vals"
    and "index_map vals ''sha256Hash'' = JString h"
    and "h \<noteq> []"
    and "index_map vals ''version'' = JNumber v"
    and "persistedQueryCheck (Some p) w = (out, w')"
  shows "out = Return (Some p) None
     \<and> heap w' = (heap w)(p := (heap w p)\<lparr>HasPersistedParams := True\<rparr>)
     \<and> Query (heap w' p) = Query (heap w p)
     \<and> OperationName (heap w' p) = OperationName (heap w p)
     \<and> Variables (heap w' p) = Variables (heap w p)
     \<and> Extensions (heap w' p) = Extensions (heap w p)
     \<and> Persisted (heap w' p) = Persisted (heap w p)
     \<and> HasPersistedParams (heap w' p)"
  using assms by (auto simp add: pqc_register)

theorem registration_frame_witness:
  "fst (persistedQueryCheck (Some 0) (start_world [registration_request ''abc123'' ''{ hello }'']))
     = Return (Some 0) None \<and>
   heap (snd (persistedQueryCheck (Some 0)
       (start_world [registration_request ''abc123'' ''{ hello }''])))
     = (heap (start_world [registration_request ''abc123'' ''{ hello }'']))
         (0 := (registration_request ''abc123'' ''{ hello }'')\<lparr>HasPersistedParams := True\<rparr>) \<and>
   Query (heap (snd (persistedQueryCheck (Some 0)
       (start_world [registration_request ''abc123'' ''{ hello }'']))) 0) = ''{ hello }'' \<and>
   \<not> Persisted (heap (snd (persistedQueryCheck (Some 0)
       (start_world [registration_request ''abc123'' ''{ hello }'']))) 0) \<and>
   HasPersistedParams (heap (snd (persistedQueryCheck (Some 0)
       (start_world [registration_request ''abc123'' ''{ hello }'']))) 0)"
proof -
  let ?w = "start_world [registration_request ''abc123'' ''{ hello }'']"
  have r: "heap ?w 0 = registration_request ''abc123'' ''{ hello }''"
    by (simp add: start_world_def)
  have q: "Query (heap ?w 0) \<noteq> []"
    and e: "Extensions (heap ?w 0) = Some [(''persistedQuery'', JObject (descriptor ''abc123''))]"
    and pq: "index_map [(''persistedQuery'', JObject (descriptor ''abc123''))] ''persistedQuery''
              = JObject (descriptor ''abc123'')"
    and sha: "index_map (descriptor ''abc123'') ''sha256Hash'' = JString ''abc123''"
    and hne: "''abc123'' \<noteq> []"
    and ver: "index_map (descriptor ''abc123'') ''version'' = JNumber float64_1"
    by (simp_all add: example_defs)
  have v: "Query (heap ?w 0) = ''{ hello }''" "\<not> Persisted (heap ?w 0)"
    by (simp_all add: example_defs)
  from registration_frame [OF q e pq sha hne ver surjective_pairing] r v
  show ?thesis by simp
qed

section \<open>The cache only grows\<close>

text \<open>
  Claim C8. No call of \<open>persistedQueryCheck\<close> removes a key from the cache: whatever
  the pointer and the state, and however the call ends, every hash that is a key of the
  cache before the call is a key of it after the call (its entry may be a new one).
\<close>

theorem cache_keys_kept:
  assumes "k \<in> dom (cache w)"
  shows "k \<in> dom (cache (snd (persistedQueryCheck opts w)))"
proof -
  consider (same) "cache (snd (persistedQueryCheck opts w)) = cache w"
    | (stored) h entry where "cache (snd (persistedQueryCheck opts w)) = (cache w)(h \<mapsto> entry)"
    using pqc_cache_cases by blast
  then show ?thesis
  proof cases
    case same
    with assms show ?thesis by simp
  next
    case stored
    with assms show ?thesis by auto
  qed
qed

theorem cache_keys_kept_witness:
  "''abc123'' \<in> dom (cache (snd (persistedQueryCheck (Some 0)
      (start_world [registration_request ''abc123'' ''{ hello }'',
                    registration_request ''abc123'' ''{ bye }''])))) \<and>
   ''abc123'' \<in> dom (cache (snd (persistedQueryCheck (Some 1)
      (snd (persistedQueryCheck (Some 0)
        (start_world [registration_request ''abc123'' ''{ hello }'',
                      registration_request ''abc123'' ''{ bye }''])))))) \<and>
   query (cache_index (cache (snd (persistedQueryCheck (Some 1)
      (snd (persistedQueryCheck (Some 0)
        (start_world [registration_request ''abc123'' ''{ hello }'',
                      registration_request ''abc123'' ''{ bye }'']))))))
      ''abc123'') = ''{ bye }''"
proof -
  let ?w1 = "snd (persistedQueryCheck (Some 0)
      (start_world [registration_request ''abc123'' ''{ hello }'',
                    registration_request ''abc123'' ''{ bye }'']))"
  have k: "''abc123'' \<in> dom (cache ?w1)"
    by (simp add: example_defs resolver_defs)
  have q: "query (cache_index (cache (snd (persistedQueryCheck (Some 1) ?w1))) ''abc123'')
             = ''{ bye }''"
    by (simp add: example_defs resolver_defs)
  from k cache_keys_kept [OF k, of "Some 1"] q show ?thesis by blast
qed

section \<open>The lookup miss\<close>

text \<open>
  Claim C10. Whenever \<open>persistedQueryCheck\<close> returns an error, the error is the
  not-found message, the pointer returned with it is nil, and the request that was
  passed in has been written to before: its \<open>HasPersistedParams\<close> is true. That
  assignment is the only change to the state; the cache is as it was.
\<close>

theorem not_found_after_flag:
  assumes "persistedQueryCheck (Some p) w = (Return ret (Some err), w')"
  shows "ret = None \<and> err = PersistedQueryNotFound
     \<and> HasPersistedParams (heap w' p)
     \<and> heap w' = (heap w)(p := (heap w p)\<lparr>HasPersistedParams := True\<rparr>)
     \<and> cache w' = cache w"
proof -
  from assms have "fst (persistedQueryCheck (Some p) w) = Return ret (Some err)"
    and w': "w' = snd (persistedQueryCheck (Some p) w)"
    by simp_all
  from pqc_error_only_on_miss [OF this(1)] w' show ?thesis
    by simp
qed

theorem not_found_after_flag_witness:
  "persistedQueryCheck (Some 0) (start_world [lookup_request ''unknown999''])
     = (Return None (Some PersistedQueryNotFound),
        snd (persistedQueryCheck (Some 0) (start_world [lookup_request ''unknown999'']))) \<and>
   \<not> HasPersistedParams (heap (start_world [lookup_request ''unknown999'']) 0) \<and>
   HasPersistedParams (heap (snd (persistedQueryCheck (Some 0)
      (start_world [lookup_request ''unknown999'']))) 0) \<and>
   cache (snd (persistedQueryCheck (Some 0) (start_world [lookup_request ''unknown999''])))
     = cache (start_world [lookup_request ''unknown999''])"
proof -
  let ?w = "start_world [lookup_request ''unknown999'']"
  have call: "persistedQueryCheck (Some 0) ?w
     = (Return None (Some PersistedQueryNotFound), snd (persistedQueryCheck (Some 0) ?w))"
    by (simp add: example_defs resolver_defs)
  have before: "\<not> HasPersistedParams (heap ?w 0)"
    by (simp add: example_defs)
  from not_found_after_flag [OF call] call before show ?thesis
    by blast
qed

section \<open>Type assertions on the descriptor\<close>




text \<open>
  Claim C6. A request whose extensions hold under \<open>persistedQuery\<close> a value that is
  neither null nor an object, or an object whose \<open>sha256Hash\<close> is missing, null or not a
  string, makes \<open>persistedQueryCheck\<close> panic on a type assertion: it returns neither the
  request nor an error value. This holds for every such request, so there are some; the
  state is as it was when the panic is raised.
\<close>

theorem malformed_descriptor_panics:
  assumes "Extensions (heap w p) = Some ext"
    and "(index_map ext ''persistedQuery'' \<noteq> JNull
            \<and> (\<forall>vals. index_map ext ''persistedQuery'' \<noteq> JObject vals))
       \<or> (\<exists>vals. index_map ext ''persistedQuery'' = JObject vals
            \<and> (\<forall>s. index_map vals ''sha256Hash'' \<noteq> JString s))"
  shows "persistedQueryCheck (Some p) w = (Panic InterfaceConversion, w)"
  using assms by (auto simp add: pqc_not_object pqc_hash_not_string)

theorem malformed_descriptor_panics_witness:
  "persistedQueryCheck (Some 0)
     (start_world [request ''{ hello }'' (Some [(''persistedQuery'', JString ''abc123'')])])
     = (Panic InterfaceConversion,
        start_world [request ''{ hello }'' (Some [(''persistedQuery'', JString ''abc123'')])]) \<and>
   persistedQueryCheck (Some 0)
     (start_world [request ''{ hello }'' (persistedQuery_ext [(''version'', JNumber float64_1)])])
     = (Panic InterfaceConversion,
        start_world [request ''{ hello }'' (persistedQuery_ext [(''version'', JNumber float64_1)])]) \<and>
   persistedQueryCheck (Some 0)
     (start_world [request ''{ hello }'' (persistedQuery_ext [(''sha256Hash'', JNumber float64_1)])])
     = (Panic InterfaceConversion,
        start_world [request ''{ hello }''
          (persistedQuery_ext [(''sha256Hash'', JNumber float64_1)])])"
proof -
  let ?a = "start_world [request ''{ hello }'' (Some [(''persistedQuery'', JString ''abc123'')])]"
  let ?b = "start_world [request ''{ hello }''
              (persistedQuery_ext [(''version'', JNumber float64_1)])]"
  let ?c = "start_world [request ''{ hello }''
              (persistedQuery_ext [(''sha256Hash'', JNumber float64_1)])]"
  have ae: "Extensions (heap ?a 0) = Some [(''persistedQuery'', JString ''abc123'')]"
    and ad: "index_map [(''persistedQuery'', JString ''abc123'')] ''persistedQuery'' \<noteq> JNull
       \<and> (\<forall>vals. index_map [(''persistedQuery'', JString ''abc123'')] ''persistedQuery''
                    \<noteq> JObject vals)"
    by (simp_all add: example_defs)
  have be: "Extensions (heap ?b 0)
              = Some [(''persistedQuery'', JObject [(''version'', JNumber float64_1)])]"
    and bd: "\<exists>vals. index_map [(''persistedQuery'', JObject [(''version'', JNumber float64_1)])]
                  ''persistedQuery'' = JObject vals
               \<and> (\<forall>s. index_map vals ''sha256Hash'' \<noteq> JString s)"
    by (simp_all add: example_defs)
  have ce: "Extensions (heap ?c 0)
              = Some [(''persistedQuery'', JObject [(''sha256Hash'', JNumber float64_1)])]"
    and cd: "\<exists>vals. index_map [(''persistedQuery'', JObject [(''sha256Hash'', JNumber float64_1)])]
                  ''persistedQuery'' = JObject vals
               \<and> (\<forall>s. index_map vals ''sha256Hash'' \<noteq> JString s)"
    by (simp_all add: example_defs)
  from malformed_descriptor_panics [OF ae disjI1 [OF ad]]
    malformed_descriptor_panics [OF be disjI2 [OF bd]]
    malformed_descriptor_panics [OF ce disjI2 [OF cd]]
  show ?thesis by blast
qed

section \<open>The handler on a lookup miss\<close>

text \<open>
  Claim C2. For a request with an empty query and a descriptor whose non-empty
  \<open>sha256Hash\<close> is not a key of the cache, \<open>persistedQueryCheck\<close> returns a nil pointer
  and an error whose message is exactly the not-found body. \<open>ContextHandler\<close> then sets
  the content type, writes that message as the response body and returns: whatever the
  handler's configuration, the request and the execution engine, \<open>graphql.Do\<close> is not
  among the things it did.
\<close>

theorem lookup_miss_short_circuits:
  assumes "Query (heap w p) = []"
    and "Extensions (heap w p) = Some ext"
    and "index_map ext ''persistedQuery'' = JObject vals"
    and "index_map vals ''sha256Hash'' = JString h"
    and "h \<noteq> []"
    and "cache w h = None"
  shows \<open>fst (persistedQueryCheck (Some p) w)
       = Return None (Some
           ''{"errors":[{"message":"PersistedQueryNotFound","extensions":{"code":"PERSISTED_QUERY_NOT_FOUND"}}]}'')
     \<and> fst (snd (ContextHandler e hdl ctx r p w))
       = [SetHeader ''Content-Type'' ''application/json'',
          Write
           ''{"errors":[{"message":"PersistedQueryNotFound","extensions":{"code":"PERSISTED_QUERY_NOT_FOUND"}}]}'']
     \<and> fst (ContextHandler e hdl ctx r p w) = None
     \<and> filter is_dispatch (fst (snd (ContextHandler e hdl ctx r p w))) = []\<close>
proof -
  from \<open>cache w h = None\<close> have "query (cache_index (cache w) h) = []"
    by (simp add: cache_index_def zero_CacheEntry_def)
  with assms have call: "persistedQueryCheck (Some p) w
      = (Return None (Some PersistedQueryNotFound),
         store p (\<lambda>r. r\<lparr>HasPersistedParams := True\<rparr>) w)"
    by (simp add: pqc_lookup)
  then have "ContextHandler e hdl ctx r p w
      = (None, [SetHeader ''Content-Type'' ''application/json'', Write PersistedQueryNotFound],
         store p (\<lambda>r. r\<lparr>HasPersistedParams := True\<rparr>) w)"
    by (simp add: ContextHandler_def)
  with call show ?thesis
    by (simp add: PersistedQueryNotFound_def)
qed

theorem lookup_miss_short_circuits_witness:
  \<open>fst (persistedQueryCheck (Some 0) (start_world [lookup_request ''unknown999'']))
       = Return None (Some
           ''{"errors":[{"message":"PersistedQueryNotFound","extensions":{"code":"PERSISTED_QUERY_NOT_FOUND"}}]}'')
   \<and> fst (snd (ContextHandler idle_env default_handler () post_request 0
              (start_world [lookup_request ''unknown999''])))
       = [SetHeader ''Content-Type'' ''application/json'',
          Write
           ''{"errors":[{"message":"PersistedQueryNotFound","extensions":{"code":"PERSISTED_QUERY_NOT_FOUND"}}]}'']
   \<and> filter is_dispatch (fst (snd (ContextHandler idle_env default_handler () post_request 0
              (start_world [lookup_request ''unknown999''])))) = []
   \<and> filter is_dispatch (fst (snd (ContextHandler idle_env default_handler () post_request 0
              (start_world [registration_request ''abc123'' ''{ hello }'']))))
       = [GraphqlDo \<lparr>Schema_P = (), RequestString = ''{ hello }'', VariableValues = None,
                     OperationName_P = [], Context = (), RootObject = None\<rparr>]\<close>
proof -
  let ?w = "start_world [lookup_request ''unknown999'']"
  have q: "Query (heap ?w 0) = []"
    and e: "Extensions (heap ?w 0) = Some [(''persistedQuery'', JObject (descriptor ''unknown999''))]"
    and pq: "index_map [(''persistedQuery'', JObject (descriptor ''unknown999''))] ''persistedQuery''
              = JObject (descriptor ''unknown999'')"
    and sha: "index_map (descriptor ''unknown999'') ''sha256Hash'' = JString ''unknown999''"
    and hne: "''unknown999'' \<noteq> []"
    and miss: "cache ?w ''unknown999'' = None"
    by (simp_all add: example_defs)
  have served: "filter is_dispatch (fst (snd (ContextHandler idle_env default_handler ()
        post_request 0 (start_world [registration_request ''abc123'' ''{ hello }'']))))
      = [GraphqlDo \<lparr>Schema_P = (), RequestString = ''{ hello }'', VariableValues = None,
                    OperationName_P = [], Context = (), RootObject = None\<rparr>]"
    by (simp add: ContextHandler_def default_handler_def post_request_def idle_env_def
        strings_Contains_def example_defs resolver_defs)
  from lookup_miss_short_circuits [OF q e pq sha hne miss, of idle_env default_handler "()"
      post_request] served
  show ?thesis by blast
qed

end
